theory Spec2Isabelle
  imports Complex_Main "HOL-Library.Sublist"
begin

section \<open>JavaScript values and the runtime boundary\<close>

text \<open>
  The retrieval layer (hackernews-api.ts) and the tool wrapper (tools.ts) are asynchronous
  functions that call \<^verbatim>\<open>fetch\<close>. The embedding makes their effects explicit:
  \<^item> a promise that may reject is a value of \<open>thrown + 'a\<close> (\<open>Inl\<close> the thrown value);
  \<^item> every invocation of \<^verbatim>\<open>fetch\<close> is appended to the \<open>calls\<close> of the world, so
    "a network call is performed" means "\<^verbatim>\<open>fetch\<close> is invoked";
  \<^item> what the network answers is a parameter: a function of the number of calls issued
    before and of the request, so that two fetches of the same URL may be answered
    differently;
  \<^item> \<^verbatim>\<open>response.json()\<close> either throws or yields a value of the TypeScript type the
    code declares for it;
  \<^item> a JavaScript string is the list of the bytes of its UTF-8 encoding.
  Console output is not part of the model.
\<close>

text \<open>A thrown value: an instance of \<^verbatim>\<open>Error\<close> with its message, or anything else.\<close>

datatype thrown = Error (message: string) | NonError

text \<open>
  A Number that the code handles is integral (identifiers, Unix times, counts), or it is
  NaN or an infinity, which only \<^verbatim>\<open>parseInt\<close> produces here: JSON cannot denote them.
  An \<open>int\<close> of the model stands for the Number of that value; up to \<open>2\<^sup>5\<^sup>3\<close> in
  absolute value every integer is a Number. The two zeros of JavaScript are one value
  here: nothing in this code tells them apart.
\<close>

datatype js_number = Num int | NaN | Infinity | Minus_Infinity

record 'j response =
  ok :: bool
  status :: nat
  body_text :: "thrown + string"
  json :: "thrown + 'j"

subsection \<open>The Number of a mathematical integer\<close>

text \<open>
  A double has 53 significant bits. \<open>round_to_double m\<close> is the double nearest to \<open>m\<close>,
  ties going to the even significand, and \<open>None\<close> when that is beyond the largest double
  (the Number is then an infinity). \<open>binary_exponent m\<close> is the number of low bits that
  do not fit.
\<close>

fun binary_exponent :: "nat \<Rightarrow> nat" where
  "binary_exponent m = (if m < 2 ^ 53 then 0 else Suc (binary_exponent (m div 2)))"

definition round_to_double :: "nat \<Rightarrow> nat option" where
  "round_to_double m =
     (let e = binary_exponent m;
          q = m div 2 ^ e;
          r = m mod 2 ^ e;
          up = (2 * r > 2 ^ e \<or> (2 * r = 2 ^ e \<and> odd q));
          v = (if up then q + 1 else q) * 2 ^ e
      in if v \<ge> 2 ^ 1024 then None else Some v)"

definition Number_of_int :: "int \<Rightarrow> js_number" where
  "Number_of_int v =
     (if \<bar>v\<bar> \<le> 2 ^ 53 then Num v
      else case round_to_double (nat \<bar>v\<bar>) of
             None \<Rightarrow> if v < 0 then Minus_Infinity else Infinity
           | Some m \<Rightarrow> Num (if v < 0 then - int m else int m))"

subsection \<open>Number to string, as a template literal renders it\<close>

fun digits :: "nat \<Rightarrow> string" where
  "digits n =
     (if n < 10 then [''0123456789'' ! n]
      else digits (n div 10) @ [''0123456789'' ! (n mod 10)])"

text \<open>
  \<^verbatim>\<open>`${x}`\<close> for an integral \<open>x\<close> is \<^verbatim>\<open>Number.prototype.toString\<close>: the fewest decimal
  digits \<open>s\<close> (\<open>k\<close> of them) and the \<open>n\<close> such that \<open>s \<times> 10\<^bsup>n-k\<^esup>\<close> is read back as
  \<open>x\<close>, the nearest to \<open>x\<close> when there are several; they are printed as the digits
  followed by \<open>n - k\<close> zeros when \<open>n \<le> 21\<close>, and in exponent notation otherwise. Up to
  \<open>2\<^sup>5\<^sup>3\<close> these are the decimal digits of \<open>x\<close>.

  \<open>candidates x k\<close> are the pairs \<open>(s, n)\<close> with \<open>k\<close> digits next to \<open>x\<close> that are read
  back as \<open>x\<close>: the multiple of the power of ten below \<open>x\<close> and the one above.
\<close>

definition candidates :: "nat \<Rightarrow> nat \<Rightarrow> (nat \<times> nat) list" where
  "candidates x k =
     (let d = length (digits x);
          s0 = x div 10 ^ (d - k);
          lo = (s0, d);
          hi = (if s0 + 1 = 10 ^ k then (10 ^ (k - 1), d + 1) else (s0 + 1, d))
      in filter (\<lambda>(s, n). round_to_double (s * 10 ^ (n - k)) = Some x) [lo, hi])"

definition closest :: "nat \<Rightarrow> nat \<Rightarrow> (nat \<times> nat) list \<Rightarrow> nat \<times> nat" where
  "closest x k cs =
     (case cs of
        [lo, hi] \<Rightarrow>
          (let dlo = x - fst lo * 10 ^ (snd lo - k);
               dhi = fst hi * 10 ^ (snd hi - k) - x
           in if dlo < dhi \<or> (dlo = dhi \<and> even (fst lo)) then lo else hi)
      | c # _ \<Rightarrow> c
      | [] \<Rightarrow> (x, length (digits x)))"

definition shortest :: "nat \<Rightarrow> nat \<times> nat" where
  "shortest x =
     (case find (\<lambda>k. candidates x k \<noteq> []) [1..<Suc (length (digits x))] of
        None \<Rightarrow> (x, length (digits x))
      | Some k \<Rightarrow> closest x k (candidates x k))"

definition render_double :: "nat \<Rightarrow> string" where
  "render_double x =
     (let (s, n) = shortest x; ds = digits s; k = length ds
      in if n \<le> 21 then ds @ replicate (n - k) (CHR ''0'')
         else (if k = 1 then ds else hd ds # ''.'' @ tl ds) @ ''e+'' @ digits (n - 1))"

definition Number_toString :: "int \<Rightarrow> string" where
  "Number_toString i =
     (if i < 0 then ''-'' else []) @
     (if \<bar>i\<bar> \<le> 2 ^ 53 then digits (nat \<bar>i\<bar>)
      else case round_to_double (nat \<bar>i\<bar>) of
             None \<Rightarrow> ''Infinity''
           | Some x \<Rightarrow> render_double x)"

subsection \<open>Array.prototype.slice on an integral range\<close>

definition slice :: "'a list \<Rightarrow> int \<Rightarrow> int \<Rightarrow> 'a list" where
  "slice xs start stop =
     (let len = int (length xs);
          k = (if start < 0 then max (len + start) 0 else min start len);
          final = (if stop < 0 then max (len + stop) 0 else min stop len)
      in take (nat (final - k)) (drop (nat k) xs))"

subsection \<open>String.prototype.includes\<close>

fun String_includes :: "string \<Rightarrow> string \<Rightarrow> bool" where
  "String_includes [] searchString = (searchString = [])"
| "String_includes (c # cs) searchString =
     (prefix searchString (c # cs) \<or> String_includes cs searchString)"

subsection \<open>parseInt with no radix argument\<close>

text \<open>
  The steps of \<^verbatim>\<open>parseInt(string)\<close>: skip leading white space, read a sign, strip a
  \<^verbatim>\<open>0x\<close> prefix (radix 16, otherwise radix 10), take the longest run of digits of the
  radix; no digit gives NaN, and otherwise the result is the Number of the signed
  integer the digits denote.

  The white space and line terminators that are skipped, each as its UTF-8 bytes: TAB,
  LF, VT, FF, CR, space, U+00A0, U+1680, U+2000 to U+200A, U+2028, U+2029, U+202F, U+205F,
  U+3000 and U+FEFF.
\<close>

definition StrWhiteSpaceChars :: "nat list list" where
  "StrWhiteSpaceChars =
     [[9], [10], [11], [12], [13], [32],
      [194, 160],
      [225, 154, 128],
      [226, 128, 128], [226, 128, 129], [226, 128, 130], [226, 128, 131],
      [226, 128, 132], [226, 128, 133], [226, 128, 134], [226, 128, 135],
      [226, 128, 136], [226, 128, 137], [226, 128, 138],
      [226, 128, 168], [226, 128, 169], [226, 128, 175],
      [226, 129, 159],
      [227, 128, 128],
      [239, 187, 191]]"

text \<open>The number of bytes of the white space at the head of a string; 0 when there is none.\<close>

definition white_space_length :: "string \<Rightarrow> nat" where
  "white_space_length s =
     (case find (\<lambda>ws. prefix ws (map of_char s)) StrWhiteSpaceChars of
        None \<Rightarrow> 0
      | Some ws \<Rightarrow> length ws)"

fun trimStart :: "string \<Rightarrow> string" where
  "trimStart [] = []"
| "trimStart (c # cs) =
     (let k = white_space_length (c # cs)
      in if k = 0 then c # cs else trimStart (drop (k - 1) cs))"

definition digitValue :: "char \<Rightarrow> nat option" where
  "digitValue c =
     (let n = (of_char c :: nat) in
      if 48 \<le> n \<and> n \<le> 57 then Some (n - 48)
      else if 97 \<le> n \<and> n \<le> 122 then Some (n - 87)
      else if 65 \<le> n \<and> n \<le> 90 then Some (n - 55)
      else None)"

definition isRadixDigit :: "nat \<Rightarrow> char \<Rightarrow> bool" where
  "isRadixDigit R c = (case digitValue c of None \<Rightarrow> False | Some d \<Rightarrow> d < R)"

definition parseInt :: "string \<Rightarrow> js_number" where
  "parseInt inputString =
     (let S = trimStart inputString;
          sign = (if S \<noteq> [] \<and> hd S = CHR ''-'' then - 1 else 1 :: int);
          S1 = (if S \<noteq> [] \<and> (hd S = CHR ''+'' \<or> hd S = CHR ''-'') then tl S else S);
          stripPrefix = (take 2 S1 = ''0x'' \<or> take 2 S1 = ''0X'');
          R = (if stripPrefix then 16 else 10 :: nat);
          S2 = (if stripPrefix then drop 2 S1 else S1);
          Z = takeWhile (isRadixDigit R) S2
      in if Z = [] then NaN
         else Number_of_int (sign * int (foldl (\<lambda>a c. a * R + the (digitValue c)) 0 Z)))"

section \<open>Data model (hackernews-api.ts)\<close>

datatype item_type = Story | Comment | Job | Poll | Pollopt

record HNItem =
  id' :: js_number
  type :: item_type
  by' :: string
  time :: int
  text' :: "string option"
  dead :: "bool option"
  parent :: "int option"
  poll :: "int option"
  kids :: "int list option"
  url :: "string option"
  score :: "int option"
  title :: "string option"
  parts :: "int list option"
  descendants :: "int option"

record hit =
  objectID :: string
  title :: string
  url :: "string option"
  author :: string
  points :: int
  num_comments :: int
  created_at_i :: int

record AlgoliaSearchResult =
  hits :: "hit list"
  nbHits :: int

record FirecrawlMetadata =
  title :: "string option"
  description :: "string option"
  language :: "string option"
  keywords' :: "string option"
  robots :: "string option"
  ogTitle :: "string option"
  ogDescription :: "string option"
  ogUrl :: "string option"
  ogImage :: "string option"
  ogLocaleAlternate :: "string list option"
  ogSiteName :: "string option"
  sourceURL :: string
  statusCode :: "int option"

record scrape_data =
  markdown :: "string option"
  html :: "string option"
  rawHtml :: "string option"
  screenshot :: "string option"
  links :: "string list option"
  metadata :: "FirecrawlMetadata option"

record FirecrawlScrapeResult =
  success :: bool
  data :: "scrape_data option"
  error :: "string option"

datatype format = Markdown | Html | RawHtml | Screenshot | Links

record FirecrawlScrapeOptions =
  formats :: "format list option"
  onlyMainContent :: "bool option"
  includeTags :: "string list option"
  excludeTags :: "string list option"
  headers :: "(string \<times> string) list option"
  waitFor :: "int option"
  timeout :: "int option"

section \<open>Requests, the runtime and the world\<close>

text \<open>
  The object \<^verbatim>\<open>scrapeUrl\<close> hands to \<^verbatim>\<open>JSON.stringify\<close> as the request body: the URL,
  the three destructured options with their defaults applied, and the remaining options
  spread after them (one flat object).
\<close>

record scrape_body =
  body_url :: string
  body_formats :: "format list"
  body_onlyMainContent :: bool
  body_timeout :: int
  body_includeTags :: "string list option"
  body_excludeTags :: "string list option"
  body_headers :: "(string \<times> string) list option"
  body_waitFor :: "int option"

text \<open>
  A request as \<^verbatim>\<open>fetch\<close> receives it: a GET of a URL, a GET of a URL with its
  \<^verbatim>\<open>URLSearchParams\<close>, or a POST with headers and a body.
\<close>

datatype request =
    GET string
  | GET_query string "(string \<times> string) list"
  | POST string "(string \<times> string) list" scrape_body

record world =
  calls :: "request list"

record runtime =
  item_endpoint :: "nat \<Rightarrow> request \<Rightarrow> thrown + HNItem option response"
  feed_endpoint :: "nat \<Rightarrow> request \<Rightarrow> thrown + int list response"
  search_endpoint :: "nat \<Rightarrow> request \<Rightarrow> thrown + AlgoliaSearchResult response"
  scrape_endpoint :: "nat \<Rightarrow> request \<Rightarrow> thrown + FirecrawlScrapeResult response"
  Date_now :: int
  Deno_env :: "string \<Rightarrow> string option"

definition fetch ::
  "(nat \<Rightarrow> request \<Rightarrow> thrown + 'j response) \<Rightarrow> request \<Rightarrow> world
     \<Rightarrow> (thrown + 'j response) \<times> world" where
  "fetch answer req w = (answer (length (calls w)) req, w\<lparr>calls := calls w @ [req]\<rparr>)"

section \<open>Hacker News API client (hackernews-api.ts)\<close>

definition HN_API_BASE :: string where
  "HN_API_BASE = ''https://hacker-news.firebaseio.com/v0''"

subsection \<open>getItem\<close>

text \<open>The body of the \<^verbatim>\<open>try\<close> block; \<open>Inl\<close> is what the block throws.\<close>

definition item_request :: "int \<Rightarrow> request" where
  "item_request i = GET (HN_API_BASE @ ''/item/'' @ Number_toString i @ ''.json'')"

definition getItem_try ::
  "runtime \<Rightarrow> int \<Rightarrow> world \<Rightarrow> (thrown + HNItem option) \<times> world" where
  "getItem_try rt i w =
     (case fetch (item_endpoint rt) (item_request i) w of
        (Inl e, w') \<Rightarrow> (Inl e, w')
      | (Inr response, w') \<Rightarrow>
          if \<not> ok response then (Inr None, w') else (json response, w'))"

definition getItem ::
  "runtime \<Rightarrow> int \<Rightarrow> world \<Rightarrow> (thrown + HNItem option) \<times> world" where
  "getItem rt i w =
     (case getItem_try rt i w of
        (Inl e, w') \<Rightarrow> (Inr None, w')
      | (Inr item, w') \<Rightarrow> (Inr item, w'))"

subsection \<open>getTopStories, getNewStories, getBestStories\<close>

text \<open>
  The three list fetchers are the same code up to the path of the feed; \<open>listStories_try\<close>
  is their \<^verbatim>\<open>try\<close> block and \<open>listStories\<close> adds the \<^verbatim>\<open>catch\<close>. The limit is
  integral; an absent argument takes the default 30.
\<close>

definition listStories_try ::
  "runtime \<Rightarrow> string \<Rightarrow> int \<Rightarrow> world \<Rightarrow> (thrown + int list) \<times> world" where
  "listStories_try rt path limit w =
     (case fetch (feed_endpoint rt) (GET (HN_API_BASE @ path)) w of
        (Inl e, w') \<Rightarrow> (Inl e, w')
      | (Inr response, w') \<Rightarrow>
          if \<not> ok response then (Inr [], w')
          else (case json response of
                  Inl e \<Rightarrow> (Inl e, w')
                | Inr ids \<Rightarrow> (Inr (slice ids 0 limit), w')))"

definition listStories ::
  "runtime \<Rightarrow> string \<Rightarrow> int \<Rightarrow> world \<Rightarrow> (thrown + int list) \<times> world" where
  "listStories rt path limit w =
     (case listStories_try rt path limit w of
        (Inl e, w') \<Rightarrow> (Inr [], w')
      | (Inr ids, w') \<Rightarrow> (Inr ids, w'))"

definition default_to :: "'a \<Rightarrow> 'a option \<Rightarrow> 'a" where
  "default_to d arg = (case arg of None \<Rightarrow> d | Some v \<Rightarrow> v)"

definition getTopStories ::
  "runtime \<Rightarrow> int option \<Rightarrow> world \<Rightarrow> (thrown + int list) \<times> world" where
  "getTopStories rt limit w = listStories rt ''/topstories.json'' (default_to 30 limit) w"

definition getNewStories ::
  "runtime \<Rightarrow> int option \<Rightarrow> world \<Rightarrow> (thrown + int list) \<times> world" where
  "getNewStories rt limit w = listStories rt ''/newstories.json'' (default_to 30 limit) w"

definition getBestStories ::
  "runtime \<Rightarrow> int option \<Rightarrow> world \<Rightarrow> (thrown + int list) \<times> world" where
  "getBestStories rt limit w = listStories rt ''/beststories.json'' (default_to 30 limit) w"

subsection \<open>getItems\<close>

text \<open>
  \<^verbatim>\<open>ids.map(id => getItem(id))\<close> starts one fetch per identifier, in the order of
  \<open>ids\<close>; \<^verbatim>\<open>Promise.all\<close> yields the results in that order, or rejects when one of
  the promises rejects.
\<close>

fun getItem_each ::
  "runtime \<Rightarrow> int list \<Rightarrow> world \<Rightarrow> (thrown + HNItem option) list \<times> world" where
  "getItem_each rt [] w = ([], w)"
| "getItem_each rt (i # ids) w =
     (case getItem rt i w of
        (p, w') \<Rightarrow> (case getItem_each rt ids w' of (ps, w'') \<Rightarrow> (p # ps, w'')))"

fun Promise_all :: "(thrown + 'a) list \<Rightarrow> thrown + 'a list" where
  "Promise_all [] = Inr []"
| "Promise_all (Inl e # ps) = Inl e"
| "Promise_all (Inr v # ps) =
     (case Promise_all ps of Inl e \<Rightarrow> Inl e | Inr vs \<Rightarrow> Inr (v # vs))"

definition getItems ::
  "runtime \<Rightarrow> int list \<Rightarrow> world \<Rightarrow> (thrown + HNItem list) \<times> world" where
  "getItems rt ids w =
     (case getItem_each rt ids w of
        (promises, w') \<Rightarrow>
          (case Promise_all promises of
             Inl e \<Rightarrow> (Inl e, w')
           | Inr items \<Rightarrow> (Inr (map the (filter (\<lambda>item. item \<noteq> None) items)), w')))"

subsection \<open>getTodaysTopStories\<close>

text \<open>
  \<open>Date_now\<close> is what \<^verbatim>\<open>Date.now()\<close> returns (milliseconds) when the filter runs,
  after the stories have been fetched. The comparison is the source's, over the rationals:
  for an integral time and a clock reading in whole milliseconds the double arithmetic of
  JavaScript decides it the same way.
\<close>

definition getTodaysTopStories ::
  "runtime \<Rightarrow> int option \<Rightarrow> world \<Rightarrow> (thrown + HNItem list) \<times> world" where
  "getTodaysTopStories rt count w =
     (case getTopStories rt (Some (default_to 30 count)) w of
        (Inl e, w1) \<Rightarrow> (Inl e, w1)
      | (Inr topStoryIds, w1) \<Rightarrow>
          (case getItems rt topStoryIds w1 of
             (Inl e, w2) \<Rightarrow> (Inl e, w2)
           | (Inr stories, w2) \<Rightarrow>
               (let oneDayAgo = (of_int (Date_now rt) / 1000 - 24 * 60 * 60 :: rat);
                    todaysStories =
                      filter (\<lambda>story. of_int (time story) \<ge> oneDayAgo \<and> type story = Story)
                        stories
                in (Inr todaysStories, w2))))"

subsection \<open>searchStories\<close>

text \<open>
  \<^verbatim>\<open>if (numericFilters)\<close> holds for a string that is present and not empty. A
  non-success response throws inside the \<^verbatim>\<open>try\<close> block and is caught with the rest.
\<close>

definition search_request :: "string \<Rightarrow> string option \<Rightarrow> string option \<Rightarrow> request" where
  "search_request query tags numericFilters =
     (let params = [(''query'', query), (''tags'', default_to ''story'' tags),
                    (''hitsPerPage'', ''30'')];
          params' = (case numericFilters of
                       None \<Rightarrow> params
                     | Some f \<Rightarrow> if f = [] then params
                                else params @ [(''numericFilters'', f)])
      in GET_query ''https://hn.algolia.com/api/v1/search'' params')"

definition searchStories_try ::
  "runtime \<Rightarrow> string \<Rightarrow> string option \<Rightarrow> string option \<Rightarrow> world
     \<Rightarrow> (thrown + AlgoliaSearchResult) \<times> world" where
  "searchStories_try rt query tags numericFilters w =
     (case fetch (search_endpoint rt) (search_request query tags numericFilters) w of
        (Inl e, w') \<Rightarrow> (Inl e, w')
      | (Inr response, w') \<Rightarrow>
          if \<not> ok response
          then (Inl (Error (''Search failed: '' @ digits (status response))), w')
          else (json response, w'))"

definition searchStories ::
  "runtime \<Rightarrow> string \<Rightarrow> string option \<Rightarrow> string option \<Rightarrow> world
     \<Rightarrow> (thrown + AlgoliaSearchResult) \<times> world" where
  "searchStories rt query tags numericFilters w =
     (case searchStories_try rt query tags numericFilters w of
        (Inl e, w') \<Rightarrow> (Inr \<lparr>hits = [], nbHits = 0\<rparr>, w')
      | (Inr r, w') \<Rightarrow> (Inr r, w'))"

subsection \<open>algoliaToHNItem\<close>

definition algoliaToHNItem :: "hit \<Rightarrow> HNItem" where
  "algoliaToHNItem h =
     \<lparr>id' = parseInt (objectID h),
      type = Story,
      by' = author h,
      time = created_at_i h,
      text' = None, dead = None, parent = None, poll = None, kids = None,
      url = hit.url h,
      score = Some (points h),
      title = Some (hit.title h),
      parts = None,
      descendants = Some (num_comments h)\<rparr>"

section \<open>Firecrawl API client (hackernews-api.ts)\<close>

definition FIRECRAWL_API_BASE :: string where
  "FIRECRAWL_API_BASE = ''https://api.firecrawl.dev/v2''"

definition scrape_request :: "string \<Rightarrow> string \<Rightarrow> FirecrawlScrapeOptions \<Rightarrow> request" where
  "scrape_request u apiKey options =
     POST (FIRECRAWL_API_BASE @ ''/scrape'')
       [(''Authorization'', ''Bearer '' @ apiKey), (''Content-Type'', ''application/json'')]
       \<lparr>body_url = u,
        body_formats = default_to [Markdown] (formats options),
        body_onlyMainContent = default_to True (onlyMainContent options),
        body_timeout = default_to 30000 (timeout options),
        body_includeTags = includeTags options,
        body_excludeTags = excludeTags options,
        body_headers = headers options,
        body_waitFor = waitFor options\<rparr>"

definition scrapeUrl_try ::
  "runtime \<Rightarrow> string \<Rightarrow> string \<Rightarrow> FirecrawlScrapeOptions \<Rightarrow> world
     \<Rightarrow> (thrown + FirecrawlScrapeResult) \<times> world" where
  "scrapeUrl_try rt u apiKey options w =
     (case fetch (scrape_endpoint rt) (scrape_request u apiKey options) w of
        (Inl e, w') \<Rightarrow> (Inl e, w')
      | (Inr response, w') \<Rightarrow>
          if \<not> ok response
          then (case body_text response of
                  Inl e \<Rightarrow> (Inl e, w')
                | Inr errorText \<Rightarrow>
                    (Inr \<lparr>success = False, data = None,
                          error = Some (''Firecrawl API error: '' @ digits (status response)
                                          @ '' - '' @ errorText)\<rparr>, w'))
          else (json response, w'))"

definition scrapeUrl ::
  "runtime \<Rightarrow> string \<Rightarrow> string \<Rightarrow> FirecrawlScrapeOptions \<Rightarrow> world
     \<Rightarrow> (thrown + FirecrawlScrapeResult) \<times> world" where
  "scrapeUrl rt u apiKey options w =
     (case scrapeUrl_try rt u apiKey options w of
        (Inl e, w') \<Rightarrow>
          (Inr \<lparr>success = False, data = None,
                error = Some (case e of Error m \<Rightarrow> m | NonError \<Rightarrow> ''Unknown error'')\<rparr>, w')
      | (Inr r, w') \<Rightarrow> (Inr r, w'))"

section \<open>The fetch_article tool (tools.ts)\<close>

text \<open>
  The tool returns \<^verbatim>\<open>JSON.stringify(v)\<close>; the model returns the value \<open>v\<close>, with the
  properties whose value is \<^verbatim>\<open>undefined\<close> left out, as \<^verbatim>\<open>JSON.stringify\<close> does.
\<close>

datatype json_value = JString string | JObject "(string \<times> json_value) list"

fun defined_properties :: "(string \<times> json_value option) list \<Rightarrow> (string \<times> json_value) list" where
  "defined_properties [] = []"
| "defined_properties ((k, None) # ps) = defined_properties ps"
| "defined_properties ((k, Some v) # ps) = (k, v) # defined_properties ps"

definition JSON_object :: "(string \<times> json_value option) list \<Rightarrow> json_value" where
  "JSON_object ps = JObject (defined_properties ps)"

text \<open>\<^verbatim>\<open>a || b\<close> on an optional string: \<open>b\<close> when \<open>a\<close> is undefined or empty.\<close>

definition or_else :: "string option \<Rightarrow> string \<Rightarrow> string" where
  "or_else a b = (case a of None \<Rightarrow> b | Some v \<Rightarrow> if v = [] then b else v)"

definition FIRECRAWL_API_KEY :: "runtime \<Rightarrow> string" where
  "FIRECRAWL_API_KEY rt = or_else (Deno_env rt ''FIRECRAWL_API_KEY'') []"

definition key_not_set :: string where
  "key_not_set = ''FIRECRAWL_API_KEY environment variable is not set. Please set it to use article summarization.''"

definition discussion_note :: string where
  "discussion_note = ''This is a Hacker News discussion page, not an external article. It contains comments and discussion but no article content to scrape.''"

definition fetchArticleTool_try ::
  "runtime \<Rightarrow> string \<Rightarrow> string option \<Rightarrow> world \<Rightarrow> (thrown + json_value) \<times> world" where
  "fetchArticleTool_try rt u story_title w =
     (if FIRECRAWL_API_KEY rt = []
      then (Inr (JSON_object [(''error'', Some (JString key_not_set))]), w)
      else if String_includes u ''news.ycombinator.com/item''
      then (Inr (JSON_object [(''url'', Some (JString u)),
                              (''story_title'', map_option JString story_title),
                              (''note'', Some (JString discussion_note))]), w)
      else
        (case scrapeUrl rt u (FIRECRAWL_API_KEY rt)
                \<lparr>formats = Some [Markdown], onlyMainContent = Some True,
                 includeTags = None, excludeTags = None, headers = None, waitFor = None,
                 timeout = Some 30000\<rparr> w of
           (Inl e, w') \<Rightarrow> (Inl e, w')
         | (Inr result, w') \<Rightarrow>
             (case (if success result then data result else None) of
                None \<Rightarrow>
                  (Inr (JSON_object
                     [(''url'', Some (JString u)),
                      (''story_title'', map_option JString story_title),
                      (''error'', Some (JString
                         (or_else (error result) ''Failed to fetch article content'')))]), w')
              | Some d \<Rightarrow>
                  (Inr (JSON_object
                     [(''url'', Some (JString u)),
                      (''story_title'', map_option JString story_title),
                      (''content'', Some (JString
                         (or_else (markdown d) ''No content available''))),
                      (''metadata'', Some (JSON_object
                         [(''title'', map_option JString
                             (Option.bind (metadata d) FirecrawlMetadata.title)),
                          (''description'', map_option JString
                             (Option.bind (metadata d) description)),
                          (''author'', map_option JString
                             (Option.bind (metadata d) ogSiteName))]))]), w'))))"

definition fetchArticleTool_execute ::
  "runtime \<Rightarrow> string \<Rightarrow> string option \<Rightarrow> world \<Rightarrow> (thrown + json_value) \<times> world" where
  "fetchArticleTool_execute rt u story_title w =
     (case fetchArticleTool_try rt u story_title w of
        (Inl e, w') \<Rightarrow>
          (Inr (JSON_object
             [(''url'', Some (JString u)),
              (''error'', Some (JString
                 (case e of Error m \<Rightarrow> m | NonError \<Rightarrow> ''Unknown error occurred'')))]), w')
      | (Inr v, w') \<Rightarrow> (Inr v, w'))"

section \<open>Vocabulary of the specification\<close>

text \<open>
  What the network answers to the fetch that an operation is about to issue in world
  \<open>w\<close>: the answer to call number \<open>length (calls w)\<close>.
\<close>

definition answer_now ::
  "(nat \<Rightarrow> request \<Rightarrow> thrown + 'j response) \<Rightarrow> world \<Rightarrow> request \<Rightarrow> thrown + 'j response" where
  "answer_now endpoint w req = endpoint (length (calls w)) req"

text \<open>A network fault: the transport fails, or the response has a non-success status.\<close>

definition network_fault :: "thrown + 'j response \<Rightarrow> bool" where
  "network_fault a = (case a of Inl e \<Rightarrow> True | Inr r \<Rightarrow> \<not> ok r)"

text \<open>
  The identifier list of the upstream feed, when the feed answers with success and its
  body parses; \<open>None\<close> when the fetch fails.
\<close>

definition upstream_feed :: "runtime \<Rightarrow> string \<Rightarrow> world \<Rightarrow> int list option" where
  "upstream_feed rt path w =
     (case answer_now (feed_endpoint rt) w (GET (HN_API_BASE @ path)) of
        Inl e \<Rightarrow> None
      | Inr r \<Rightarrow> if ok r then (case json r of Inl e \<Rightarrow> None | Inr ids \<Rightarrow> Some ids) else None)"

text \<open>
  A list fetch that returns the first \<open>N\<close> entries of the feed, in feed order: at most
  \<open>N\<close> of them and at most as many as the feed has; the empty list when the fetch fails.
\<close>

definition first_of_feed :: "int \<Rightarrow> int list option \<Rightarrow> thrown + int list \<Rightarrow> bool" where
  "first_of_feed N feed result =
     (case result of
        Inl e \<Rightarrow> False
      | Inr ids \<Rightarrow>
          int (length ids) \<le> N \<and>
          (case feed of
             None \<Rightarrow> ids = []
           | Some f \<Rightarrow> ids = take (nat N) f \<and> length ids \<le> length f))"

text \<open>The feed with its last \<open>|n|\<close> entries removed, for a negative \<open>n\<close>.\<close>

definition all_but_last :: "int \<Rightarrow> 'a list \<Rightarrow> 'a list" where
  "all_but_last n feed = rev (drop (nat (- n)) (rev feed))"

text \<open>
  What the \<open>k\<close>-th identifier of \<open>ids\<close> resolves to in a batch started in world \<open>w\<close>:
  the result of its \<open>getItem\<close>, called after the \<open>k\<close> earlier fetches were issued.
  \<open>None\<close> is the absent item.
\<close>

definition resolved :: "runtime \<Rightarrow> int list \<Rightarrow> world \<Rightarrow> nat \<Rightarrow> HNItem option" where
  "resolved rt ids w k =
     (case fst (getItem rt (ids ! k) (w\<lparr>calls := calls w @ map item_request (take k ids)\<rparr>)) of
        Inl e \<Rightarrow> None
      | Inr item \<Rightarrow> item)"

text \<open>
  The positions of \<open>ids\<close> whose identifier resolves to an item, in increasing order, and
  the number of positions whose identifier resolves to absent.
\<close>

definition survivors :: "runtime \<Rightarrow> int list \<Rightarrow> world \<Rightarrow> nat list" where
  "survivors rt ids w = filter (\<lambda>k. resolved rt ids w k \<noteq> None) [0..<length ids]"

definition absent_count :: "runtime \<Rightarrow> int list \<Rightarrow> world \<Rightarrow> nat" where
  "absent_count rt ids w = length (filter (\<lambda>k. resolved rt ids w k = None) [0..<length ids])"

text \<open>
  An item that passes the recency filter when \<^verbatim>\<open>Date.now()\<close> reads \<open>now\<close> milliseconds:
  a story created no more than 86400 seconds before.
\<close>

definition recent_story :: "int \<Rightarrow> HNItem \<Rightarrow> bool" where
  "recent_story now story =
     ((of_int (time story) :: rat) \<ge> of_int now / 1000 - 86400 \<and> type story = Story)"

text \<open>A tool payload that carries the original URL and the explanatory note.\<close>

definition has_url_and_note :: "string \<Rightarrow> json_value \<Rightarrow> bool" where
  "has_url_and_note u v =
     (case v of
        JString s \<Rightarrow> False
      | JObject ps \<Rightarrow>
          map_of ps ''url'' = Some (JString u) \<and>
          map_of ps ''note'' = Some (JString discussion_note))"

section \<open>A concrete runtime\<close>

text \<open>
  A small world to run the operations in: a feed of five identifiers; item 1 a story
  and item 2 a job, both 50000 seconds old; item 3 a story 100000 seconds old; item 4
  answered with JSON \<^verbatim>\<open>null\<close>; every other item answered with status 404; the search
  endpoint unreachable; the scrape endpoint answering status 500.
\<close>

definition demo_item :: "int \<Rightarrow> item_type \<Rightarrow> int \<Rightarrow> HNItem" where
  "demo_item i ty t =
     \<lparr>id' = Num i, type = ty, by' = ''pg'', time = t,
      text' = None, dead = None, parent = None, poll = None, kids = None,
      url = None, score = Some 10, title = Some ''A title'', parts = None,
      descendants = Some 0\<rparr>"

definition respond :: "'j \<Rightarrow> thrown + 'j response" where
  "respond v = Inr \<lparr>ok = True, status = 200, body_text = Inl NonError, json = Inr v\<rparr>"

definition respond_status :: "nat \<Rightarrow> string \<Rightarrow> thrown + 'j response" where
  "respond_status s b =
     Inr \<lparr>ok = False, status = s, body_text = Inr b, json = Inl (Error ''Unexpected token'')\<rparr>"

definition demo_items :: "nat \<Rightarrow> request \<Rightarrow> thrown + HNItem option response" where
  "demo_items k req =
     (if req = item_request 1 then respond (Some (demo_item 1 Story 150000))
      else if req = item_request 2 then respond (Some (demo_item 2 Job 150000))
      else if req = item_request 3 then respond (Some (demo_item 3 Story 100000))
      else if req = item_request 4 then respond None
      else respond_status 404 ''Not Found'')"

definition demo :: runtime where
  "demo =
     \<lparr>item_endpoint = demo_items,
      feed_endpoint = (\<lambda>k req. respond [1, 2, 3, 4, 5]),
      search_endpoint = (\<lambda>k req. Inl (Error ''network unreachable'')),
      scrape_endpoint = (\<lambda>k req. respond_status 500 ''server error''),
      Date_now = 200000000,
      Deno_env = (\<lambda>name. if name = ''FIRECRAWL_API_KEY'' then Some ''fc-key'' else None)\<rparr>"

definition demo_no_key :: runtime where
  "demo_no_key = demo\<lparr>Deno_env := (\<lambda>name. None)\<rparr>"

definition demo_offline :: runtime where
  "demo_offline =
     demo\<lparr>item_endpoint := (\<lambda>k req. Inl (Error ''network unreachable'')),
          feed_endpoint := (\<lambda>k req. Inl (Error ''network unreachable'')),
          scrape_endpoint := (\<lambda>k req. Inl (Error ''network unreachable''))\<rparr>"

definition start :: world where
  "start = \<lparr>calls = []\<rparr>"

definition discussion_url :: string where
  "discussion_url = ''https://news.ycombinator.com/item?id=123''"

definition no_options :: FirecrawlScrapeOptions where
  "no_options =
     \<lparr>formats = None, onlyMainContent = None, includeTags = None, excludeTags = None,
      headers = None, waitFor = None, timeout = None\<rparr>"

section \<open>Basic facts about the runtime boundary\<close>

lemma fetch_eq: "fetch a req w = (answer_now a w req, w\<lparr>calls := calls w @ [req]\<rparr>)"
  by (simp add: fetch_def answer_now_def)

lemma FIRECRAWL_API_KEY_empty:
  "FIRECRAWL_API_KEY rt = [] \<longleftrightarrow>
     Deno_env rt ''FIRECRAWL_API_KEY'' = None \<or> Deno_env rt ''FIRECRAWL_API_KEY'' = Some []"
  by (simp add: FIRECRAWL_API_KEY_def or_else_def split: option.splits)

section \<open>The fetch_article tool without an API key\<close>

text \<open>
  Claim C2. For every URL, a \<^verbatim>\<open>fetch_article\<close> call made while the Firecrawl API key is
  missing or empty returns a structured error object (an object whose one property
  \<^verbatim>\<open>error\<close> is the missing-key message) and performs no network call: the world, and
  with it the list of calls, is unchanged.
\<close>

theorem missing_key_error_no_network:
  assumes "Deno_env rt ''FIRECRAWL_API_KEY'' = None \<or> Deno_env rt ''FIRECRAWL_API_KEY'' = Some []"
  shows "fetchArticleTool_execute rt u story_title w =
           (Inr (JObject [(''error'', JString key_not_set)]), w) \<and>
         calls (snd (fetchArticleTool_execute rt u story_title w)) = calls w"
proof -
  from assms have "FIRECRAWL_API_KEY rt = []"
    by (simp add: FIRECRAWL_API_KEY_empty)
  then have "fetchArticleTool_try rt u story_title w =
               (Inr (JObject [(''error'', JString key_not_set)]), w)"
    by (simp add: fetchArticleTool_try_def JSON_object_def)
  then show ?thesis
    by (simp add: fetchArticleTool_execute_def)
qed

theorem missing_key_error_no_network_witness:
  "Deno_env demo_no_key ''FIRECRAWL_API_KEY'' = None \<and>
   fetchArticleTool_execute demo_no_key ''https://example.com/post'' (Some ''A title'') start =
     (Inr (JObject [(''error'', JString key_not_set)]), start) \<and>
   calls (snd (fetchArticleTool_execute demo_no_key ''https://example.com/post''
                 (Some ''A title'') start)) = []"
  using missing_key_error_no_network
    [of demo_no_key "''https://example.com/post''" "Some ''A title''" start]
  by (simp add: demo_no_key_def demo_def start_def)

section \<open>The fetch_article tool on a discussion page\<close>

text \<open>
  Claim C1, as stated, at the input it fails on. The claim asks that a call whose URL
  contains \<^verbatim>\<open>news.ycombinator.com/item\<close> return a payload with the original URL and an
  explanatory note for every API key, the missing key included. With no key set, the key
  guard runs first: the payload is the missing-key error object, which has neither a
  \<^verbatim>\<open>url\<close> nor a \<^verbatim>\<open>note\<close> property.
\<close>

theorem discussion_page_counterexample:
  "String_includes discussion_url ''news.ycombinator.com/item'' \<and>
   fst (fetchArticleTool_execute demo_no_key discussion_url None start) =
     Inr (JObject [(''error'', JString key_not_set)]) \<and>
   \<not> has_url_and_note discussion_url (JObject [(''error'', JString key_not_set)])"
  by (simp add: discussion_url_def fetchArticleTool_execute_def fetchArticleTool_try_def
      FIRECRAWL_API_KEY_def or_else_def demo_no_key_def demo_def JSON_object_def
      has_url_and_note_def)

text \<open>
  Claim C1, amended. For every \<^verbatim>\<open>fetch_article\<close> call whose URL contains
  \<^verbatim>\<open>news.ycombinator.com/item\<close>, no network call is performed, for every API key value
  including the empty or missing key; when the key is set and not empty, the returned
  payload is the object with the original URL, the story title when one was given, and
  the explanatory note.
\<close>

theorem discussion_page_short_circuit:
  assumes "String_includes u ''news.ycombinator.com/item''"
  shows "snd (fetchArticleTool_execute rt u story_title w) = w \<and>
         calls (snd (fetchArticleTool_execute rt u story_title w)) = calls w \<and>
         (FIRECRAWL_API_KEY rt \<noteq> [] \<longrightarrow>
            fst (fetchArticleTool_execute rt u story_title w) =
              Inr (JSON_object [(''url'', Some (JString u)),
                                (''story_title'', map_option JString story_title),
                                (''note'', Some (JString discussion_note))]) \<and>
            has_url_and_note u
              (JSON_object [(''url'', Some (JString u)),
                            (''story_title'', map_option JString story_title),
                            (''note'', Some (JString discussion_note))]))"
proof -
  have body: "fetchArticleTool_try rt u story_title w =
      (if FIRECRAWL_API_KEY rt = []
       then (Inr (JSON_object [(''error'', Some (JString key_not_set))]), w)
       else (Inr (JSON_object [(''url'', Some (JString u)),
                               (''story_title'', map_option JString story_title),
                               (''note'', Some (JString discussion_note))]), w))"
    using assms by (simp add: fetchArticleTool_try_def)
  have payload: "has_url_and_note u
      (JSON_object [(''url'', Some (JString u)),
                    (''story_title'', map_option JString story_title),
                    (''note'', Some (JString discussion_note))])"
    by (cases story_title) (simp_all add: has_url_and_note_def JSON_object_def)
  from body payload show ?thesis
    by (simp add: fetchArticleTool_execute_def)
qed

theorem discussion_page_short_circuit_witness:
  "String_includes discussion_url ''news.ycombinator.com/item'' \<and>
   FIRECRAWL_API_KEY demo \<noteq> [] \<and>
   fetchArticleTool_execute demo discussion_url None start =
     (Inr (JObject [(''url'', JString discussion_url),
                    (''note'', JString discussion_note)]), start) \<and>
   calls (snd (fetchArticleTool_execute demo_no_key discussion_url None start)) = []"
  using discussion_page_short_circuit [of discussion_url demo None start]
    discussion_page_short_circuit [of discussion_url demo_no_key None start]
  by (simp add: discussion_url_def FIRECRAWL_API_KEY_def or_else_def demo_def
      JSON_object_def start_def prod_eq_iff)

section \<open>The operations as equations\<close>

text \<open>
  Each operation, with its \<^verbatim>\<open>try\<close> and \<^verbatim>\<open>catch\<close> folded together: the value it
  fulfils with, by cases on what the network answers, and the world it leaves.
\<close>

lemma getItem_eq:
  "getItem rt i w =
     (Inr (case answer_now (item_endpoint rt) w (item_request i) of
             Inl e \<Rightarrow> None
           | Inr r \<Rightarrow> if ok r then (case json r of Inl e \<Rightarrow> None | Inr v \<Rightarrow> v) else None),
      w\<lparr>calls := calls w @ [item_request i]\<rparr>)"
  by (simp add: getItem_def getItem_try_def fetch_eq split: sum.splits)

lemma listStories_eq:
  "listStories rt path limit w =
     (Inr (case upstream_feed rt path w of None \<Rightarrow> [] | Some ids \<Rightarrow> slice ids 0 limit),
      w\<lparr>calls := calls w @ [GET (HN_API_BASE @ path)]\<rparr>)"
  by (simp add: listStories_def listStories_try_def fetch_eq upstream_feed_def split: sum.splits)

lemma searchStories_eq:
  "searchStories rt q tags nf w =
     (Inr (case answer_now (search_endpoint rt) w (search_request q tags nf) of
             Inl e \<Rightarrow> \<lparr>hits = [], nbHits = 0\<rparr>
           | Inr r \<Rightarrow> if ok r then (case json r of Inl e \<Rightarrow> \<lparr>hits = [], nbHits = 0\<rparr> | Inr v \<Rightarrow> v)
                     else \<lparr>hits = [], nbHits = 0\<rparr>),
      w\<lparr>calls := calls w @ [search_request q tags nf]\<rparr>)"
  by (simp add: searchStories_def searchStories_try_def fetch_eq split: sum.splits)

lemma scrapeUrl_eq:
  "scrapeUrl rt u k opts w =
     (Inr (case answer_now (scrape_endpoint rt) w (scrape_request u k opts) of
             Inl e \<Rightarrow> \<lparr>success = False, data = None,
                        error = Some (case e of Error m \<Rightarrow> m | NonError \<Rightarrow> ''Unknown error'')\<rparr>
           | Inr r \<Rightarrow>
               if ok r
               then (case json r of
                       Inl e \<Rightarrow> \<lparr>success = False, data = None,
                         error = Some (case e of Error m \<Rightarrow> m | NonError \<Rightarrow> ''Unknown error'')\<rparr>
                     | Inr v \<Rightarrow> v)
               else (case body_text r of
                       Inl e \<Rightarrow> \<lparr>success = False, data = None,
                         error = Some (case e of Error m \<Rightarrow> m | NonError \<Rightarrow> ''Unknown error'')\<rparr>
                     | Inr errorText \<Rightarrow> \<lparr>success = False, data = None,
                         error = Some (''Firecrawl API error: '' @ digits (status r) @ '' - '' @ errorText)\<rparr>)),
      w\<lparr>calls := calls w @ [scrape_request u k opts]\<rparr>)"
  by (simp add: scrapeUrl_def scrapeUrl_try_def fetch_eq split: sum.splits)

lemma resolved_0:
  "resolved rt (i # ids) w 0 = (case fst (getItem rt i w) of Inl e \<Rightarrow> None | Inr item \<Rightarrow> item)"
  by (simp add: resolved_def)

lemma resolved_Suc:
  "resolved rt (i # ids) w (Suc k) =
     resolved rt ids (w\<lparr>calls := calls w @ [item_request i]\<rparr>) k"
  by (simp add: resolved_def)

lemma getItem_each_eq:
  "getItem_each rt ids w =
     (map (\<lambda>k. Inr (resolved rt ids w k)) [0..<length ids],
      w\<lparr>calls := calls w @ map item_request ids\<rparr>)"
proof (induction ids arbitrary: w)
  case Nil
  show ?case by simp
next
  case (Cons i ids)
  have head: "getItem rt i w = (Inr (resolved rt (i # ids) w 0), w\<lparr>calls := calls w @ [item_request i]\<rparr>)"
    by (simp add: resolved_0 getItem_eq)
  show ?case
    by (simp add: head Cons.IH map_upt_Suc resolved_Suc del: upt_Suc)
qed

lemma Promise_all_fulfilled: "Promise_all (map Inr vs) = Inr vs"
  by (induction vs) simp_all

lemma getItems_eq:
  "getItems rt ids w =
     (Inr (map the (filter (\<lambda>item. item \<noteq> None) (map (resolved rt ids w) [0..<length ids]))),
      w\<lparr>calls := calls w @ map item_request ids\<rparr>)"
proof -
  have e: "getItem_each rt ids w =
             (map Inr (map (resolved rt ids w) [0..<length ids]),
              w\<lparr>calls := calls w @ map item_request ids\<rparr>)"
    by (simp add: getItem_each_eq)
  show ?thesis
    unfolding getItems_def e by (simp only: Promise_all_fulfilled prod.case sum.case)
qed

lemma getTopStories_eq:
  "getTopStories rt limit w =
     (Inr (case upstream_feed rt ''/topstories.json'' w of
             None \<Rightarrow> [] | Some ids \<Rightarrow> slice ids 0 (default_to 30 limit)),
      w\<lparr>calls := calls w @ [GET (HN_API_BASE @ ''/topstories.json'')]\<rparr>)"
  by (simp add: getTopStories_def listStories_eq)

lemma getTodaysTopStories_fulfils: "\<exists>v. fst (getTodaysTopStories rt count w) = Inr v"
  by (simp add: getTodaysTopStories_def getTopStories_eq getItems_eq Let_def default_to_def)

lemma getNewStories_eq:
  "getNewStories rt limit w =
     (Inr (case upstream_feed rt ''/newstories.json'' w of
             None \<Rightarrow> [] | Some ids \<Rightarrow> slice ids 0 (default_to 30 limit)),
      w\<lparr>calls := calls w @ [GET (HN_API_BASE @ ''/newstories.json'')]\<rparr>)"
  by (simp add: getNewStories_def listStories_eq)

lemma getBestStories_eq:
  "getBestStories rt limit w =
     (Inr (case upstream_feed rt ''/beststories.json'' w of
             None \<Rightarrow> [] | Some ids \<Rightarrow> slice ids 0 (default_to 30 limit)),
      w\<lparr>calls := calls w @ [GET (HN_API_BASE @ ''/beststories.json'')]\<rparr>)"
  by (simp add: getBestStories_def listStories_eq)

lemma upstream_feed_fault:
  "network_fault (answer_now (feed_endpoint rt) w (GET (HN_API_BASE @ path))) \<Longrightarrow>
     upstream_feed rt path w = None"
  by (auto simp add: network_fault_def upstream_feed_def split: sum.splits)

lemma scrapeUrl_fault:
  "network_fault (answer_now (scrape_endpoint rt) w (scrape_request u k opts)) \<Longrightarrow>
     \<exists>r. fst (scrapeUrl rt u k opts w) = Inr r \<and> \<not> success r \<and> error r \<noteq> None"
  by (auto simp add: network_fault_def scrapeUrl_eq split: sum.splits)

section \<open>Failures of the scrape call\<close>

text \<open>
  Claim C7. When \<^verbatim>\<open>scrapeUrl\<close> receives a non-success response with status \<open>S\<close> whose
  body text reads as \<open>B\<close>, it returns the result with \<^verbatim>\<open>success: false\<close> and the error
  string \<^verbatim>\<open>Firecrawl API error: S - B\<close>; when the transport throws an \<^verbatim>\<open>Error\<close> with
  message \<open>M\<close>, it returns the result with \<^verbatim>\<open>success: false\<close> and the error \<open>M\<close>.
\<close>

theorem scrape_failures:
  "(answer_now (scrape_endpoint rt) w (scrape_request u apiKey options) = Inr r \<and> \<not> ok r \<and>
      body_text r = Inr B \<longrightarrow>
      fst (scrapeUrl rt u apiKey options w) =
        Inr \<lparr>success = False, data = None,
             error = Some (''Firecrawl API error: '' @ digits (status r) @ '' - '' @ B)\<rparr>) \<and>
   (answer_now (scrape_endpoint rt) w (scrape_request u apiKey options) = Inl (Error M) \<longrightarrow>
      fst (scrapeUrl rt u apiKey options w) =
        Inr \<lparr>success = False, data = None, error = Some M\<rparr>)"
  by (simp add: scrapeUrl_eq)

text \<open>
  Status 500 with the body \<^verbatim>\<open>server error\<close>, and an unreachable network.
\<close>

theorem scrape_failures_witness:
  "fst (scrapeUrl demo ''https://example.com/post'' ''fc-key'' no_options start) =
     Inr \<lparr>success = False, data = None,
          error = Some ''Firecrawl API error: 500 - server error''\<rparr> \<and>
   fst (scrapeUrl demo_offline ''https://example.com/post'' ''fc-key'' no_options start) =
     Inr \<lparr>success = False, data = None, error = Some ''network unreachable''\<rparr>"
  using scrape_failures [of demo start "''https://example.com/post''" "''fc-key''" no_options
      "\<lparr>ok = False, status = 500, body_text = Inr ''server error'',
        json = Inl (Error ''Unexpected token'')\<rparr>" "''server error''" "''x''"]
    scrape_failures [of demo_offline start "''https://example.com/post''" "''fc-key''" no_options
      "\<lparr>ok = False, status = 500, body_text = Inr ''server error'',
        json = Inl (Error ''Unexpected token'')\<rparr>" "''server error''" "''network unreachable''"]
  by (simp add: answer_now_def demo_def demo_offline_def respond_status_def)

section \<open>No network fault escapes\<close>

text \<open>
  Claim C8. No public operation of the retrieval layer rejects: every one of them
  fulfils with a value, for every input and every answer of the network. On a transport
  failure or a non-success status, \<^verbatim>\<open>getItem\<close> returns \<^verbatim>\<open>null\<close>, the three list
  fetchers return the empty list, \<^verbatim>\<open>searchStories\<close> returns the empty hit set with
  \<^verbatim>\<open>nbHits\<close> 0, and \<^verbatim>\<open>scrapeUrl\<close> returns a result with \<^verbatim>\<open>success: false\<close> and an
  error message.
\<close>

theorem no_network_fault_escapes:
  "(\<exists>v. fst (getItem rt i w) = Inr v) \<and>
   (\<exists>v. fst (getTopStories rt limit w) = Inr v) \<and>
   (\<exists>v. fst (getNewStories rt limit w) = Inr v) \<and>
   (\<exists>v. fst (getBestStories rt limit w) = Inr v) \<and>
   (\<exists>v. fst (getItems rt ids w) = Inr v) \<and>
   (\<exists>v. fst (getTodaysTopStories rt limit w) = Inr v) \<and>
   (\<exists>v. fst (searchStories rt q tags nf w) = Inr v) \<and>
   (\<exists>v. fst (scrapeUrl rt u k opts w) = Inr v) \<and>
   (network_fault (answer_now (item_endpoint rt) w (item_request i)) \<longrightarrow>
      fst (getItem rt i w) = Inr None) \<and>
   (network_fault (answer_now (feed_endpoint rt) w (GET (HN_API_BASE @ ''/topstories.json''))) \<longrightarrow>
      fst (getTopStories rt limit w) = Inr []) \<and>
   (network_fault (answer_now (feed_endpoint rt) w (GET (HN_API_BASE @ ''/newstories.json''))) \<longrightarrow>
      fst (getNewStories rt limit w) = Inr []) \<and>
   (network_fault (answer_now (feed_endpoint rt) w (GET (HN_API_BASE @ ''/beststories.json''))) \<longrightarrow>
      fst (getBestStories rt limit w) = Inr []) \<and>
   (network_fault (answer_now (search_endpoint rt) w (search_request q tags nf)) \<longrightarrow>
      fst (searchStories rt q tags nf w) = Inr \<lparr>hits = [], nbHits = 0\<rparr>) \<and>
   (network_fault (answer_now (scrape_endpoint rt) w (scrape_request u k opts)) \<longrightarrow>
      (\<exists>r. fst (scrapeUrl rt u k opts w) = Inr r \<and> \<not> success r \<and> error r \<noteq> None))"
proof -
  have item: "network_fault (answer_now (item_endpoint rt) w (item_request i)) \<longrightarrow>
      fst (getItem rt i w) = Inr None"
    by (simp add: network_fault_def getItem_eq split: sum.splits)
  have search: "network_fault (answer_now (search_endpoint rt) w (search_request q tags nf)) \<longrightarrow>
      fst (searchStories rt q tags nf w) = Inr \<lparr>hits = [], nbHits = 0\<rparr>"
    by (simp add: network_fault_def searchStories_eq split: sum.splits)
  have fulfil: "(\<exists>v. fst (getItem rt i w) = Inr v) \<and>
      (\<exists>v. fst (getItems rt ids w) = Inr v) \<and>
      (\<exists>v. fst (getTodaysTopStories rt limit w) = Inr v) \<and>
      (\<exists>v. fst (searchStories rt q tags nf w) = Inr v) \<and>
      (\<exists>v. fst (scrapeUrl rt u k opts w) = Inr v)"
    by (simp add: getItem_eq getItems_eq getTodaysTopStories_fulfils searchStories_eq scrapeUrl_eq)
  show ?thesis
    using item search fulfil scrapeUrl_fault [of rt w u k opts]
    by (simp add: getTopStories_eq getNewStories_eq getBestStories_eq upstream_feed_fault)
qed

theorem no_network_fault_escapes_witness:
  "network_fault (answer_now (item_endpoint demo) start (item_request 9)) \<and>
   fst (getItem demo 9 start) = Inr None \<and>
   network_fault (answer_now (item_endpoint demo_offline) start (item_request 1)) \<and>
   fst (getItem demo_offline 1 start) = Inr None \<and>
   fst (getTopStories demo_offline None start) = Inr [] \<and>
   fst (getNewStories demo_offline None start) = Inr [] \<and>
   fst (getBestStories demo_offline None start) = Inr [] \<and>
   fst (searchStories demo ''isabelle'' None None start) = Inr \<lparr>hits = [], nbHits = 0\<rparr> \<and>
   fst (scrapeUrl demo_offline ''https://example.com/post'' ''fc-key'' no_options start) =
     Inr \<lparr>success = False, data = None, error = Some ''network unreachable''\<rparr>"
proof -
  have item9: "network_fault (answer_now (item_endpoint demo) start (item_request 9))"
    by (simp add: network_fault_def answer_now_def demo_def demo_items_def item_request_def
        respond_status_def Number_toString_def)
  have off: "network_fault (answer_now (item_endpoint demo_offline) start (item_request 1))"
    "network_fault (answer_now (feed_endpoint demo_offline) start req)"
    "network_fault (answer_now (search_endpoint demo) start req)"
    for req
    by (simp_all add: network_fault_def answer_now_def demo_offline_def demo_def)
  have scrape: "fst (scrapeUrl demo_offline ''https://example.com/post'' ''fc-key'' no_options start) =
     Inr \<lparr>success = False, data = None, error = Some ''network unreachable''\<rparr>"
    by (simp add: scrapeUrl_eq answer_now_def demo_offline_def demo_def)
  show ?thesis
    using no_network_fault_escapes [of demo 9 start None "[]" "''isabelle''" None None
        "''https://example.com/post''" "''fc-key''" no_options]
      no_network_fault_escapes [of demo_offline 1 start None "[]" "''isabelle''" None None
        "''https://example.com/post''" "''fc-key''" no_options]
      item9 off scrape
    by simp
qed

section \<open>scrapeUrl has no guard of its own\<close>

lemma scrape_request_shape:
  "scrape_request u apiKey options =
     POST ''https://api.firecrawl.dev/v2/scrape''
       [(''Authorization'', ''Bearer '' @ apiKey), (''Content-Type'', ''application/json'')]
       \<lparr>body_url = u,
        body_formats = default_to [Markdown] (formats options),
        body_onlyMainContent = default_to True (onlyMainContent options),
        body_timeout = default_to 30000 (timeout options),
        body_includeTags = includeTags options,
        body_excludeTags = excludeTags options,
        body_headers = headers options,
        body_waitFor = waitFor options\<rparr>"
  by (simp add: scrape_request_def FIRECRAWL_API_BASE_def)

lemma fetchArticleTool_world:
  "snd (fetchArticleTool_execute rt u story_title w) =
     (if FIRECRAWL_API_KEY rt = [] \<or> String_includes u ''news.ycombinator.com/item'' then w
      else w\<lparr>calls := calls w @
             [scrape_request u (FIRECRAWL_API_KEY rt)
                \<lparr>formats = Some [Markdown], onlyMainContent = Some True,
                 includeTags = None, excludeTags = None, headers = None, waitFor = None,
                 timeout = Some 30000\<rparr>]\<rparr>)"
  by (simp add: fetchArticleTool_execute_def fetchArticleTool_try_def scrapeUrl_eq
      split: option.splits)

text \<open>
  Claim C10. \<^verbatim>\<open>scrapeUrl\<close> checks neither the URL nor the API key: for every URL, the
  discussion pages included, and every key string, the empty one included, it issues
  exactly one fetch, the POST to the scrape endpoint with that key in the
  \<^verbatim>\<open>Authorization\<close> header and that URL in the body. The two guards are in the
  \<^verbatim>\<open>fetch_article\<close> tool: with an empty key or a discussion-page URL the tool issues no
  call, and otherwise it issues the call of \<^verbatim>\<open>scrapeUrl\<close>.
\<close>

theorem scrapeUrl_has_no_guard:
  "snd (scrapeUrl rt u apiKey options w) =
     w\<lparr>calls := calls w @ [scrape_request u apiKey options]\<rparr> \<and>
   calls (snd (scrapeUrl rt u apiKey options w)) =
     calls w @
       [POST ''https://api.firecrawl.dev/v2/scrape''
          [(''Authorization'', ''Bearer '' @ apiKey), (''Content-Type'', ''application/json'')]
          \<lparr>body_url = u,
           body_formats = default_to [Markdown] (formats options),
           body_onlyMainContent = default_to True (onlyMainContent options),
           body_timeout = default_to 30000 (timeout options),
           body_includeTags = includeTags options,
           body_excludeTags = excludeTags options,
           body_headers = headers options,
           body_waitFor = waitFor options\<rparr>] \<and>
   (FIRECRAWL_API_KEY rt = [] \<or> String_includes u ''news.ycombinator.com/item'' \<longrightarrow>
      calls (snd (fetchArticleTool_execute rt u story_title w)) = calls w) \<and>
   (FIRECRAWL_API_KEY rt \<noteq> [] \<and> \<not> String_includes u ''news.ycombinator.com/item'' \<longrightarrow>
      calls (snd (fetchArticleTool_execute rt u story_title w)) =
        calls (snd (scrapeUrl rt u (FIRECRAWL_API_KEY rt)
                 \<lparr>formats = Some [Markdown], onlyMainContent = Some True,
                  includeTags = None, excludeTags = None, headers = None, waitFor = None,
                  timeout = Some 30000\<rparr> w)))"
  by (simp add: scrapeUrl_eq fetchArticleTool_world scrape_request_shape)

text \<open>
  Called directly with a discussion-page URL and the empty key, \<^verbatim>\<open>scrapeUrl\<close> posts;
  the tool does not for that URL, and posts for an article URL.
\<close>

theorem scrapeUrl_has_no_guard_witness:
  "String_includes discussion_url ''news.ycombinator.com/item'' \<and>
   calls (snd (scrapeUrl demo discussion_url [] no_options start)) =
     [POST ''https://api.firecrawl.dev/v2/scrape''
        [(''Authorization'', ''Bearer ''), (''Content-Type'', ''application/json'')]
        \<lparr>body_url = discussion_url, body_formats = [Markdown], body_onlyMainContent = True,
         body_timeout = 30000, body_includeTags = None, body_excludeTags = None,
         body_headers = None, body_waitFor = None\<rparr>] \<and>
   calls (snd (fetchArticleTool_execute demo discussion_url None start)) = [] \<and>
   calls (snd (fetchArticleTool_execute demo ''https://example.com/post'' None start)) =
     [POST ''https://api.firecrawl.dev/v2/scrape''
        [(''Authorization'', ''Bearer fc-key''), (''Content-Type'', ''application/json'')]
        \<lparr>body_url = ''https://example.com/post'', body_formats = [Markdown],
         body_onlyMainContent = True,
         body_timeout = 30000, body_includeTags = None, body_excludeTags = None,
         body_headers = None, body_waitFor = None\<rparr>]"
  using scrapeUrl_has_no_guard [of demo discussion_url "[]" no_options start None]
    scrapeUrl_has_no_guard [of demo "''https://example.com/post''" "''fc-key''" no_options start None]
  by (simp add: discussion_url_def no_options_def start_def default_to_def
      FIRECRAWL_API_KEY_def or_else_def demo_def scrapeUrl_eq scrape_request_shape)

section \<open>The list fetchers and their limit\<close>

lemma slice_nonneg: "0 \<le> N \<Longrightarrow> slice xs 0 N = take (nat N) xs"
  by (simp add: slice_def Let_def min_def)

lemma all_but_last_take: "all_but_last n xs = take (length xs - nat (- n)) xs"
  by (simp add: all_but_last_def rev_drop)

lemma slice_negative:
  assumes "n < 0"
  shows "slice xs 0 n = all_but_last n xs"
proof -
  have "nat (max (int (length xs) + n) 0) = length xs - nat (- n)"
    using assms by linarith
  with assms show ?thesis
    by (simp add: slice_def Let_def all_but_last_take)
qed

lemma list_fetch_Some:
  "fst (getTopStories rt (Some N) w) = fst (listStories rt ''/topstories.json'' N w)"
  "fst (getNewStories rt (Some N) w) = fst (listStories rt ''/newstories.json'' N w)"
  "fst (getBestStories rt (Some N) w) = fst (listStories rt ''/beststories.json'' N w)"
  by (simp_all add: getTopStories_def getNewStories_def getBestStories_def default_to_def)

lemma demo_feed: "upstream_feed demo path start = Some [1, 2, 3, 4, 5]"
  by (simp add: upstream_feed_def answer_now_def demo_def respond_def)

text \<open>
  Claim C5, as stated, at the input it fails on. The claim bounds the length of the result
  by \<open>N\<close> for every limit \<open>N \<le> 50\<close>; the limit \<open>- 1\<close> is such a limit, and on a feed of
  five identifiers \<^verbatim>\<open>getTopStories(-1)\<close> returns four of them.
\<close>

theorem list_fetch_counterexample:
  "(- 1 :: int) \<le> 50 \<and>
   upstream_feed demo ''/topstories.json'' start = Some [1, 2, 3, 4, 5] \<and>
   fst (getTopStories demo (Some (- 1)) start) = Inr [1, 2, 3, 4] \<and>
   \<not> int (length [1, 2, 3, 4 :: int]) \<le> - 1 \<and>
   \<not> first_of_feed (- 1) (upstream_feed demo ''/topstories.json'' start)
       (fst (getTopStories demo (Some (- 1)) start))"
  by (simp add: list_fetch_Some listStories_eq demo_feed slice_def first_of_feed_def)

text \<open>
  Claim C5, amended. For every limit \<open>N\<close> with \<open>0 \<le> N\<close> (in particular for
  \<open>0 \<le> N \<le> 50\<close>), each of \<^verbatim>\<open>getTopStories\<close>, \<^verbatim>\<open>getNewStories\<close> and
  \<^verbatim>\<open>getBestStories\<close> returns a list of length at most \<open>N\<close> and at most the length of
  the upstream feed's identifier list, namely the first \<open>N\<close> entries of the feed in feed
  order; when the fetch fails it returns the empty list.
\<close>

theorem list_fetch_first_entries:
  assumes "0 \<le> N"
  shows "first_of_feed N (upstream_feed rt ''/topstories.json'' w)
           (fst (getTopStories rt (Some N) w)) \<and>
         first_of_feed N (upstream_feed rt ''/newstories.json'' w)
           (fst (getNewStories rt (Some N) w)) \<and>
         first_of_feed N (upstream_feed rt ''/beststories.json'' w)
           (fst (getBestStories rt (Some N) w))"
proof -
  have "first_of_feed N feed (Inr (case feed of None \<Rightarrow> [] | Some ids \<Rightarrow> slice ids 0 N))"
    for feed
    using assms by (cases feed) (simp_all add: first_of_feed_def slice_nonneg)
  then show ?thesis
    by (simp add: list_fetch_Some listStories_eq)
qed

theorem list_fetch_first_entries_witness:
  "(0 :: int) \<le> 2 \<and>
   fst (getTopStories demo (Some 2) start) = Inr [1, 2] \<and>
   fst (getNewStories demo (Some 50) start) = Inr [1, 2, 3, 4, 5] \<and>
   fst (getBestStories demo_offline (Some 2) start) = Inr []"
proof -
  have off: "upstream_feed demo_offline path start = None" for path
    by (simp add: upstream_feed_def answer_now_def demo_offline_def demo_def)
  show ?thesis
    using list_fetch_first_entries [of 2 demo start]
      list_fetch_first_entries [of 50 demo start]
      list_fetch_first_entries [of 2 demo_offline start]
    by (simp add: first_of_feed_def demo_feed off split: sum.splits)
qed

text \<open>
  Claim C9. For every negative limit \<open>n\<close>, each list fetcher returns the upstream feed
  with its last \<open>|n|\<close> entries removed, as \<^verbatim>\<open>slice(0, n)\<close> does: the first
  \<open>length feed - |n|\<close> entries. The result is not bounded by \<open>n\<close> and can be all of the
  feed but one entry.
\<close>

theorem negative_limit_drops_last:
  assumes "n < 0"
  shows "(upstream_feed rt ''/topstories.json'' w = Some feed \<longrightarrow>
            fst (getTopStories rt (Some n) w) = Inr (all_but_last n feed)) \<and>
         (upstream_feed rt ''/newstories.json'' w = Some feed \<longrightarrow>
            fst (getNewStories rt (Some n) w) = Inr (all_but_last n feed)) \<and>
         (upstream_feed rt ''/beststories.json'' w = Some feed \<longrightarrow>
            fst (getBestStories rt (Some n) w) = Inr (all_but_last n feed)) \<and>
         all_but_last n feed = take (length feed - nat (- n)) feed \<and>
         length (all_but_last n feed) = length feed - nat (- n)"
  using assms
  by (simp add: list_fetch_Some listStories_eq slice_negative all_but_last_take)

theorem negative_limit_drops_last_witness:
  "(- 1 :: int) < 0 \<and>
   upstream_feed demo ''/newstories.json'' start = Some [1, 2, 3, 4, 5] \<and>
   fst (getTopStories demo (Some (- 1)) start) = Inr [1, 2, 3, 4] \<and>
   fst (getNewStories demo (Some (- 1)) start) = Inr [1, 2, 3, 4] \<and>
   fst (getBestStories demo (Some (- 2)) start) = Inr [1, 2, 3] \<and>
   fst (getBestStories demo (Some (- 7)) start) = Inr []"
  using negative_limit_drops_last [of "- 1" demo start "[1, 2, 3, 4, 5]"]
    negative_limit_drops_last [of "- 2" demo start "[1, 2, 3, 4, 5]"]
    negative_limit_drops_last [of "- 7" demo start "[1, 2, 3, 4, 5]"]
  by (simp add: demo_feed)

section \<open>The batch resolver\<close>

lemma getItems_survivors:
  "fst (getItems rt ids w) = Inr (map (\<lambda>k. the (resolved rt ids w k)) (survivors rt ids w))"
  by (simp add: getItems_eq survivors_def filter_map comp_def)

lemma survivors_increasing: "sorted_wrt (<) (survivors rt ids w)"
  by (simp add: survivors_def sorted_wrt_filter)

lemma survivors_count: "length (survivors rt ids w) + absent_count rt ids w = length ids"
  using sum_length_filter_compl [of "\<lambda>k. resolved rt ids w k \<noteq> None" "[0..<length ids]"]
  by (simp add: survivors_def absent_count_def)

lemma survivors_subseq: "subseq (map (\<lambda>k. ids ! k) (survivors rt ids w)) ids"
proof -
  have "subseq (map (\<lambda>k. ids ! k) (survivors rt ids w)) (map (\<lambda>k. ids ! k) [0..<length ids])"
    unfolding survivors_def by (rule subseq_map) simp
  then show ?thesis
    by (simp add: map_nth)
qed

text \<open>
  Claim C4. For every list of \<open>n\<close> identifiers of which \<open>k\<close> resolve to absent,
  \<^verbatim>\<open>getItems\<close> returns the items of the other positions, in the order of their
  positions in the input: the result has \<open>n - k\<close> items (so at most \<open>n - k\<close>), the
  surviving positions are strictly increasing, and their identifiers form a subsequence
  of the input. An absent item is dropped, nothing stands in its place.
\<close>

theorem batch_resolver_drops_absent:
  "fst (getItems rt ids w) = Inr (map (\<lambda>k. the (resolved rt ids w k)) (survivors rt ids w)) \<and>
   (\<exists>items. fst (getItems rt ids w) = Inr items \<and>
      length items + absent_count rt ids w = length ids \<and>
      length items \<le> length ids - absent_count rt ids w) \<and>
   sorted_wrt (<) (survivors rt ids w) \<and>
   subseq (map (\<lambda>k. ids ! k) (survivors rt ids w)) ids"
  using survivors_count [of rt ids w]
  by (simp add: getItems_survivors survivors_increasing survivors_subseq)

text \<open>
  Four identifiers: 7 is answered with status 404 and 4 with \<^verbatim>\<open>null\<close>; the items of
  1 and 3 survive, in that order.
\<close>

theorem batch_resolver_drops_absent_witness:
  "survivors demo [7, 1, 4, 3] start = [1, 3] \<and>
   absent_count demo [7, 1, 4, 3] start = 2 \<and>
   fst (getItems demo [7, 1, 4, 3] start) =
     Inr [demo_item 1 Story 150000, demo_item 3 Story 100000] \<and>
   length [demo_item 1 Story 150000, demo_item 3 Story 100000] \<le> length [7, 1, 4, 3 :: int] - 2"
proof -
  have s: "survivors demo [7, 1, 4, 3] start = [1, 3]"
    by code_simp
  have a: "absent_count demo [7, 1, 4, 3] start = 2"
    by code_simp
  have r: "map (\<lambda>k. the (resolved demo [7, 1, 4, 3] start k)) [1, 3] =
             [demo_item 1 Story 150000, demo_item 3 Story 100000]"
    by code_simp
  show ?thesis
    using batch_resolver_drops_absent [of demo "[7, 1, 4, 3]" start]
    unfolding s a r by simp
qed

section \<open>The recency filter\<close>

lemma getTodaysTopStories_value:
  "fst (getTodaysTopStories rt count w) =
     Inr (filter (recent_story (Date_now rt))
            (case fst (getItems rt
                         (case fst (getTopStories rt (Some (default_to 30 count)) w) of
                            Inl e \<Rightarrow> [] | Inr ids \<Rightarrow> ids)
                         (snd (getTopStories rt (Some (default_to 30 count)) w))) of
               Inl e \<Rightarrow> [] | Inr stories \<Rightarrow> stories))"
  by (simp add: getTodaysTopStories_def getTopStories_eq getItems_eq Let_def
      recent_story_def [abs_def])

lemma recent_story_seconds:
  "recent_story now story \<longleftrightarrow> now - 86400000 \<le> time story * 1000 \<and> type story = Story"
proof -
  have "((of_int now :: rat) / 1000 - 86400 \<le> of_int (time story)) =
          ((of_int (now - 86400000) :: rat) \<le> of_int (time story * 1000))"
    by (simp add: field_simps)
  also have "\<dots> = (now - 86400000 \<le> time story * 1000)"
    by (rule of_int_le_iff)
  finally show ?thesis
    by (simp add: recent_story_def)
qed

text \<open>
  Claim C3. \<^verbatim>\<open>getTodaysTopStories\<close> always returns, and every item it returns is a
  story whose creation time is at least \<^verbatim>\<open>Date.now() / 1000 - 86400\<close>, that is, no more
  than 86400 seconds (86400000 milliseconds) older than the clock reading taken when the
  filter runs; hence no more than 86400 seconds older than any earlier reading, such as
  the time of the call.
\<close>

theorem recency_filter:
  "\<exists>stories. fst (getTodaysTopStories rt count w) = Inr stories \<and>
     (\<forall>story \<in> set stories.
        (of_int (time story) :: rat) \<ge> of_int (Date_now rt) / 1000 - 86400 \<and>
        Date_now rt - 86400000 \<le> time story * 1000 \<and>
        type story = Story \<and>
        (\<forall>called. called \<le> Date_now rt \<longrightarrow> called - 86400000 \<le> time story * 1000))"
proof -
  have "recent_story (Date_now rt) story \<Longrightarrow>
          (of_int (time story) :: rat) \<ge> of_int (Date_now rt) / 1000 - 86400 \<and>
          Date_now rt - 86400000 \<le> time story * 1000 \<and>
          type story = Story \<and>
          (\<forall>called. called \<le> Date_now rt \<longrightarrow> called - 86400000 \<le> time story * 1000)"
    for story
    using recent_story_seconds [of "Date_now rt" story]
    by (auto simp add: recent_story_def)
  then show ?thesis
    by (simp add: getTodaysTopStories_value)
qed

text \<open>
  Of the five items of the feed, with the clock at 200000 seconds: item 1 is a story of
  time 150000 and stays; item 2 is a job; item 3 is a story of time 100000, too old;
  items 4 and 5 are absent.
\<close>

theorem recency_filter_witness:
  "fst (getTodaysTopStories demo (Some 5) start) = Inr [demo_item 1 Story 150000] \<and>
   Date_now demo = 200000000 \<and>
   (of_int (time (demo_item 1 Story 150000)) :: rat) \<ge> of_int (Date_now demo) / 1000 - 86400 \<and>
   type (demo_item 1 Story 150000) = Story"
proof -
  have v: "fst (getTodaysTopStories demo (Some 5) start) = Inr [demo_item 1 Story 150000]"
    by code_simp
  show ?thesis
    using recency_filter [of demo "Some 5" start]
    unfolding v by (simp add: demo_def demo_item_def)
qed

section \<open>Numbers: parsing and rendering\<close>

text \<open>
  \<^verbatim>\<open>parseInt\<close> reads back the decimal rendering of every integer up to \<open>2\<^sup>5\<^sup>3\<close> in
  absolute value; beyond, it rounds to the nearest double.
\<close>

lemma white_space_length_0:
  assumes "(of_char c :: nat) \<notin> {9, 10, 11, 12, 13, 32, 194, 225, 226, 227, 239}"
  shows "white_space_length (c # cs) = 0"
  using assms by (simp add: white_space_length_def StrWhiteSpaceChars_def)

lemma decimal_code:
  assumes "c \<in> set ''0123456789''"
  shows "48 \<le> (of_char c :: nat)" and "(of_char c :: nat) \<le> 57"
  using assms by auto

lemma decimal_char:
  assumes "c \<in> set ''0123456789''"
  shows "isRadixDigit 10 c" and "white_space_length (c # cs) = 0"
    and "c \<noteq> CHR ''-''" and "c \<noteq> CHR ''+''" and "c \<noteq> CHR ''x''" and "c \<noteq> CHR ''X''"
proof -
  show "isRadixDigit 10 c"
    using decimal_code [OF assms] by (simp add: isRadixDigit_def digitValue_def)
  show "white_space_length (c # cs) = 0"
    using decimal_code [OF assms] by (intro white_space_length_0) auto
  show "c \<noteq> CHR ''-''" "c \<noteq> CHR ''+''" "c \<noteq> CHR ''x''" "c \<noteq> CHR ''X''"
    using assms by auto
qed

lemma minus_not_white_space: "white_space_length (CHR ''-'' # cs) = 0"
  by (rule white_space_length_0) simp

lemma digit_char: "k < 10 \<Longrightarrow> ''0123456789'' ! k \<in> set ''0123456789''"
  by (rule nth_mem) simp

lemma digitValue_digit: "k < 10 \<Longrightarrow> digitValue (''0123456789'' ! k) = Some k"
proof -
  assume "k < 10"
  then have "k \<in> {0, 1, 2, 3, 4, 5, 6, 7, 8, 9}"
    by auto
  then show ?thesis
    by (auto simp add: digitValue_def)
qed

lemma digits_decimal: "set (digits n) \<subseteq> set ''0123456789''"
proof (induction n rule: digits.induct)
  case (1 n)
  show ?case
  proof (cases "n < 10")
    case True
    then show ?thesis
      using digit_char [of n] by (subst digits.simps) (simp del: digits.simps)
  next
    case False
    with "1.IH" digit_char [of "n mod 10"] show ?thesis
      by (subst digits.simps) (simp del: digits.simps)
  qed
qed

lemma digits_not_Nil: "digits n \<noteq> []"
  by (subst digits.simps) (simp del: digits.simps)

lemma digits_value: "foldl (\<lambda>a c. a * 10 + the (digitValue c)) 0 (digits n) = n"
proof (induction n rule: digits.induct)
  case (1 n)
  show ?case
  proof (cases "n < 10")
    case True
    then show ?thesis
      by (subst digits.simps) (simp add: digitValue_digit del: digits.simps)
  next
    case False
    with "1.IH" show ?thesis
      by (subst digits.simps) (simp add: digitValue_digit del: digits.simps)
  qed
qed

lemma parseInt_decimal:
  assumes "ds \<noteq> []" and "set ds \<subseteq> set ''0123456789''"
  shows "parseInt ds =
           Number_of_int (int (foldl (\<lambda>a c. a * 10 + the (digitValue c)) 0 ds))"
    and "parseInt (CHR ''-'' # ds) =
           Number_of_int (- int (foldl (\<lambda>a c. a * 10 + the (digitValue c)) 0 ds))"
proof -
  from assms obtain c cs where ds: "ds = c # cs"
    by (cases ds) auto
  with assms have c: "c \<in> set ''0123456789''" and cs: "set cs \<subseteq> set ''0123456789''"
    by auto
  have no_prefix: "take 2 ds \<noteq> ''0x''" "take 2 ds \<noteq> ''0X''"
  proof -
    show "take 2 ds \<noteq> ''0x''"
    proof
      assume "take 2 ds = ''0x''"
      then have "CHR ''x'' \<in> set cs"
        by (cases cs) (auto simp add: ds)
      with cs decimal_char(5) show False by blast
    qed
    show "take 2 ds \<noteq> ''0X''"
    proof
      assume "take 2 ds = ''0X''"
      then have "CHR ''X'' \<in> set cs"
        by (cases cs) (auto simp add: ds)
      with cs decimal_char(6) show False by blast
    qed
  qed
  have all: "takeWhile (isRadixDigit 10) ds = ds"
    using assms(2) decimal_char(1) by auto
  have ws: "trimStart ds = ds" "trimStart (CHR ''-'' # ds) = CHR ''-'' # ds"
    using decimal_char(2) [OF c] by (simp_all add: ds minus_not_white_space)
  have hd: "hd ds \<noteq> CHR ''-''" "hd ds \<noteq> CHR ''+''"
    using decimal_char(3,4) [OF c] by (simp_all add: ds)
  show "parseInt ds =
          Number_of_int (int (foldl (\<lambda>a c. a * 10 + the (digitValue c)) 0 ds))"
    using assms(1) by (simp add: parseInt_def Let_def ws hd no_prefix all del: trimStart.simps)
  show "parseInt (CHR ''-'' # ds) =
          Number_of_int (- int (foldl (\<lambda>a c. a * 10 + the (digitValue c)) 0 ds))"
    using assms(1) by (simp add: parseInt_def Let_def ws no_prefix all del: trimStart.simps)
qed

lemma Number_toString_safe:
  "\<bar>i\<bar> \<le> 2 ^ 53 \<Longrightarrow>
     Number_toString i = (if i < 0 then CHR ''-'' # digits (nat (- i)) else digits (nat i))"
  by (simp add: Number_toString_def del: digits.simps)

lemma parseInt_digits: "parseInt (digits n) = Number_of_int (int n)"
  using parseInt_decimal(1) [OF digits_not_Nil digits_decimal, of n]
  by (simp only: digits_value)

lemma parseInt_minus_digits: "parseInt (CHR ''-'' # digits n) = Number_of_int (- int n)"
  using parseInt_decimal(2) [OF digits_not_Nil digits_decimal, of n]
  by (simp only: digits_value)

lemma parseInt_Number_toString:
  assumes "\<bar>i\<bar> \<le> 2 ^ 53"
  shows "parseInt (Number_toString i) = Num i"
proof (cases "i < 0")
  case True
  then have "parseInt (Number_toString i) = Number_of_int (- int (nat (- i)))"
    using assms by (simp only: Number_toString_safe parseInt_minus_digits if_True)
  also have "- int (nat (- i)) = i"
    using True by simp
  finally show ?thesis
    using assms by (simp add: Number_of_int_def)
next
  case False
  then have "parseInt (Number_toString i) = Number_of_int (int (nat i))"
    using assms by (simp only: Number_toString_safe parseInt_digits if_False)
  also have "int (nat i) = i"
    using False by simp
  finally show ?thesis
    using assms by (simp add: Number_of_int_def)
qed

lemma Number_of_int_rounds: "Number_of_int 9007199254740993 = Num 9007199254740992"
  by (simp add: Number_of_int_def round_to_double_def Let_def)

lemma parseInt_rounds: "parseInt ''9007199254740993'' = Num 9007199254740992"
proof -
  have "digits 9007199254740993 = ''9007199254740993''"
    by simp
  moreover have "int 9007199254740993 = 9007199254740993"
    by simp
  ultimately show ?thesis
    using parseInt_digits [of 9007199254740993] Number_of_int_rounds
    by (simp only:)
qed

lemma parseInt_skips_no_break_space: "parseInt (CHR 194 # CHR 160 # ''42'') = Num 42"
  by (simp add: parseInt_def white_space_length_def StrWhiteSpaceChars_def Let_def
      isRadixDigit_def digitValue_def Number_of_int_def)

text \<open>The rendering of \<open>10\<^sup>2\<^sup>1\<close> is in exponent notation.\<close>

lemma find_upt_first: "P m \<Longrightarrow> m < n \<Longrightarrow> find P [m..<n] = Some m"
  by (simp add: upt_conv_Cons)

lemma round_to_double_1e21:
  "round_to_double 1000000000000000000000 = Some 1000000000000000000000"
  "round_to_double 2000000000000000000000 = Some 2000000000000000000000"
  by (simp_all add: round_to_double_def Let_def)

lemma digits_1e21: "digits 1000000000000000000000 = ''1000000000000000000000''"
  by simp

lemma candidates_1e21: "candidates 1000000000000000000000 1 = [(1, 22)]"
  using round_to_double_1e21 digits_1e21
  by (simp add: candidates_def Let_def del: digits.simps)

lemma shortest_1e21: "shortest 1000000000000000000000 = (1, 22)"
proof -
  have "find (\<lambda>k. candidates 1000000000000000000000 k \<noteq> [])
          [1..<Suc (length (digits 1000000000000000000000))] = Some 1"
    using candidates_1e21
    by (intro find_upt_first) (simp_all add: digits_1e21 del: digits.simps)
  then show ?thesis
    using candidates_1e21
    by (simp add: shortest_def closest_def del: digits.simps upt_Suc)
qed

lemma Number_toString_1e21: "Number_toString 1000000000000000000000 = ''1e+21''"
  using round_to_double_1e21(1) shortest_1e21
  by (simp add: Number_toString_def render_double_def)

section \<open>The search-hit mapping\<close>

text \<open>
  Claim C6. \<^verbatim>\<open>algoliaToHNItem\<close> is a function of the hit alone, defined on every hit. On
  the hit with \<^verbatim>\<open>objectID\<close> "123", title "T", author "a", 5 points, 2 comments and
  creation time 1000 it returns the story item with id 123, author "a", title "T", score
  5, 2 descendants and time 1000. On every hit the id is \<^verbatim>\<open>parseInt\<close> of the
  \<^verbatim>\<open>objectID\<close>, the score is the points and the descendants are the number of comments.
  The id is the integer \<open>i\<close> when the \<^verbatim>\<open>objectID\<close> is the decimal rendering of an \<open>i\<close>
  of at most \<open>2\<^sup>5\<^sup>3\<close> in absolute value; a longer \<^verbatim>\<open>objectID\<close> is rounded to a double, as
  \<open>2\<^sup>5\<^sup>3 + 1\<close> is to \<open>2\<^sup>5\<^sup>3\<close>.
\<close>

theorem algoliaToHNItem_mapping:
  "algoliaToHNItem
     \<lparr>objectID = ''123'', title = ''T'', url = None, author = ''a'', points = 5,
      num_comments = 2, created_at_i = 1000\<rparr> =
     \<lparr>id' = Num 123, type = Story, by' = ''a'', time = 1000,
      text' = None, dead = None, parent = None, poll = None, kids = None,
      url = None, score = Some 5, title = Some ''T'', parts = None,
      descendants = Some 2\<rparr> \<and>
   id' (algoliaToHNItem h) = parseInt (objectID h) \<and>
   type (algoliaToHNItem h) = Story \<and>
   by' (algoliaToHNItem h) = author h \<and>
   time (algoliaToHNItem h) = created_at_i h \<and>
   HNItem.title (algoliaToHNItem h) = Some (hit.title h) \<and>
   HNItem.url (algoliaToHNItem h) = hit.url h \<and>
   score (algoliaToHNItem h) = Some (points h) \<and>
   descendants (algoliaToHNItem h) = Some (num_comments h) \<and>
   (\<bar>i\<bar> \<le> 2 ^ 53 \<longrightarrow>
      id' (algoliaToHNItem (h\<lparr>objectID := Number_toString i\<rparr>)) = Num i) \<and>
   id' (algoliaToHNItem (h\<lparr>objectID := ''9007199254740993''\<rparr>)) = Num 9007199254740992"
proof -
  have "parseInt ''123'' = Num 123"
    using parseInt_Number_toString [of 123] by (simp add: Number_toString_safe)
  then show ?thesis
    by (simp add: algoliaToHNItem_def parseInt_Number_toString parseInt_rounds)
qed

theorem algoliaToHNItem_mapping_witness:
  "\<bar>9007199254740992\<bar> \<le> (2 :: int) ^ 53 \<and>
   Number_toString 9007199254740992 = ''9007199254740992'' \<and>
   id' (algoliaToHNItem
          \<lparr>objectID = ''9007199254740992'', title = ''T'', url = None, author = ''a'',
           points = 5, num_comments = 2, created_at_i = 1000\<rparr>) = Num 9007199254740992 \<and>
   \<bar>- 42\<bar> \<le> (2 :: int) ^ 53 \<and>
   Number_toString (- 42) = ''-42'' \<and>
   id' (algoliaToHNItem
          \<lparr>objectID = ''-42'', title = ''T'', url = None, author = ''a'',
           points = 5, num_comments = 2, created_at_i = 1000\<rparr>) = Num (- 42)"
  using algoliaToHNItem_mapping
      [of "\<lparr>objectID = ''123'', title = ''T'', url = None, author = ''a'',
            points = 5, num_comments = 2, created_at_i = 1000\<rparr>" 9007199254740992]
    algoliaToHNItem_mapping
      [of "\<lparr>objectID = ''123'', title = ''T'', url = None, author = ''a'',
            points = 5, num_comments = 2, created_at_i = 1000\<rparr>" "- 42"]
  by (simp add: Number_toString_safe)

end
